theory Spec2Isabelle
  imports Complex_Main "HOL-Library.Char_ord" "HOL-Library.List_Lexorder"
    "HOL-Library.More_List"
begin

section \<open>Numbers and table cells\<close>

text \<open>
  The Python code computes with floats held in pandas tables. A float is modelled as a
  \<^typ>\<open>real\<close> (exact arithmetic, no IEEE rounding), and a numeric table cell as a
  \<^typ>\<open>real option\<close>, where \<open>None\<close> is the NaN that pandas stores for an empty
  CSV field or for the right-hand columns of an unmatched row of a left join.
\<close>

type_synonym cell = "real option"

text \<open>
  Rounding to the nearest integer, ties to the even neighbour: what Python's \<open>round\<close>
  and the pandas \<open>Series.round()\<close> do.
\<close>

definition round_half_even :: "real \<Rightarrow> int" where
  "round_half_even x =
     (let f = \<lfloor>x\<rfloor>; d = x - of_int f
      in if d < 1 / 2 then f
         else if 1 / 2 < d then f + 1
         else if even f then f else f + 1)"

text \<open>\<open>round(x, 1)\<close>: one decimal place.\<close>

definition round1 :: "real \<Rightarrow> real" where
  "round1 x = of_int (round_half_even (x * 10)) / 10"

section \<open>The efficiency score model (torvik\_game\_output.py)\<close>

text \<open>
  A row of the ratings table \<open>torvik_data\<close>. The field \<open>HCA\<close> is \<open>None\<close> when the
  table has no \<open>HCA\<close> column (the test \<open>'HCA' in home_data.index\<close> of the source).
\<close>

record team_row =
  Team :: string
  AdjO :: real
  AdjD :: real
  AdjT :: real
  HCA :: "real option"

text \<open>The dictionary \<open>D1_AVERAGES\<close>.\<close>

definition D1_AVERAGES_tempo :: real where
  "D1_AVERAGES_tempo = 67.6"

definition D1_AVERAGES_def_efficiency :: real where
  "D1_AVERAGES_def_efficiency = 110.3"

text \<open>
  \<open>get_team_data\<close>: the rows whose \<open>Team\<close> equals the name; \<open>None\<close> when there are
  none, the first of them (\<open>iloc[0]\<close>) otherwise.
\<close>

definition get_team_data :: "team_row list \<Rightarrow> string \<Rightarrow> team_row option" where
  "get_team_data df team =
     (let team_data = filter (\<lambda>r. Team r = team) df
      in if length team_data = 0 then None else Some (hd team_data))"

text \<open>
  Subscripting the \<open>None\<close> that \<open>get_team_data\<close> returned raises \<open>TypeError\<close>; the
  string is what \<open>str(e)\<close> gives for it.
\<close>

datatype error = TypeError

definition str_error :: "error \<Rightarrow> string" where
  "str_error e = [CHR 0x27] @ ''NoneType'' @ [CHR 0x27] @ '' object is not subscriptable''"

definition calculate_tempo :: "team_row list \<Rightarrow> string \<Rightarrow> string \<Rightarrow> error + real" where
  "calculate_tempo torvik_data home_name away_name =
     (case get_team_data torvik_data home_name of
        None \<Rightarrow> Inl TypeError
      | Some home_data \<Rightarrow>
          (case get_team_data torvik_data away_name of
             None \<Rightarrow> Inl TypeError
           | Some away_data \<Rightarrow> Inr ((AdjT home_data * AdjT away_data) / D1_AVERAGES_tempo)))"

definition calculate_home_score ::
    "team_row list \<Rightarrow> string \<Rightarrow> string \<Rightarrow> bool \<Rightarrow> error + real" where
  "calculate_home_score torvik_data home_name away_name neutral =
     (case calculate_tempo torvik_data home_name away_name of
        Inl e \<Rightarrow> Inl e
      | Inr tempo \<Rightarrow>
          (case (get_team_data torvik_data home_name, get_team_data torvik_data away_name) of
             (Some home_data, Some away_data) \<Rightarrow>
               (let score = (AdjO home_data * AdjD away_data * tempo)
                              / (D1_AVERAGES_def_efficiency * 100)
                in if \<not> neutral
                   then Inr (score + (case HCA home_data of Some hca \<Rightarrow> hca | None \<Rightarrow> 3.0))
                   else Inr score)
           | _ \<Rightarrow> Inl TypeError))"

definition calculate_away_score :: "team_row list \<Rightarrow> string \<Rightarrow> string \<Rightarrow> error + real" where
  "calculate_away_score torvik_data away_name home_name =
     (case calculate_tempo torvik_data home_name away_name of
        Inl e \<Rightarrow> Inl e
      | Inr tempo \<Rightarrow>
          (case (get_team_data torvik_data home_name, get_team_data torvik_data away_name) of
             (Some home_data, Some away_data) \<Rightarrow>
               Inr ((AdjO away_data * AdjD home_data * tempo)
                      / (D1_AVERAGES_def_efficiency * 100))
           | _ \<Rightarrow> Inl TypeError))"

section \<open>Schedule rows and per-source predictions\<close>

text \<open>
  A row of \<open>daily_matchups.csv\<close> (built in fetch\_daily\_games.py) and a row of the
  scraped Haslametrics table share the two team columns.
\<close>

record teams =
  home_team :: string
  away_team :: string

record matchup = teams +
  game_id :: string
  game_time :: string
  venue :: string
  neutral_site :: bool
  game_status :: string

record haslam_game = teams +
  home_score :: real
  away_score :: real

text \<open>
  A row of a predictions file: the columns \<open>Home Team\<close>, \<open>Away Team\<close>,
  \<open>Home Score\<close>, \<open>Away Score\<close>.
\<close>

record game_key =
  Home_Team :: string
  Away_Team :: string

record prediction = game_key +
  Home_Score :: cell
  Away_Score :: cell

text \<open>An entry of the list \<open>skipped\<close>: the keys \<open>home\<close>, \<open>away\<close> and, sometimes, \<open>error\<close>.\<close>

record skipped_game =
  skipped_home :: string
  skipped_away :: string
  skipped_error :: "string option"

text \<open>
  The loop of \<open>predict_games\<close> over the rows of the schedule, with the two lists it
  appends to.
\<close>

fun predict_loop ::
    "team_row list \<Rightarrow> matchup list \<Rightarrow> prediction list \<Rightarrow> skipped_game list
      \<Rightarrow> prediction list \<times> skipped_game list" where
  "predict_loop torvik_data [] predictions skipped = (predictions, skipped)"
| "predict_loop torvik_data (game # games) predictions skipped =
     (if get_team_data torvik_data (home_team game) = None
         \<or> get_team_data torvik_data (away_team game) = None
      then predict_loop torvik_data games predictions
             (skipped @ [\<lparr>skipped_home = home_team game, skipped_away = away_team game,
                          skipped_error = None\<rparr>])
      else
        (case calculate_home_score torvik_data (home_team game) (away_team game)
                (neutral_site game) of
           Inl e \<Rightarrow>
             predict_loop torvik_data games predictions
               (skipped @ [\<lparr>skipped_home = home_team game, skipped_away = away_team game,
                            skipped_error = Some (str_error e)\<rparr>])
         | Inr hs \<Rightarrow>
             (case calculate_away_score torvik_data (away_team game) (home_team game) of
                Inl e \<Rightarrow>
                  predict_loop torvik_data games predictions
                    (skipped @ [\<lparr>skipped_home = home_team game, skipped_away = away_team game,
                                 skipped_error = Some (str_error e)\<rparr>])
              | Inr as \<Rightarrow>
                  predict_loop torvik_data games
                    (predictions @ [\<lparr>Home_Team = home_team game, Away_Team = away_team game,
                                      Home_Score = Some (round1 hs),
                                      Away_Score = Some (round1 as)\<rparr>])
                    skipped)))"

text \<open>
  \<open>predict_games\<close> once both CSV files are loaded: the rows written to
  \<open>torvik_predictions.csv\<close> and the list \<open>skipped\<close>.
\<close>

definition predict_games ::
    "team_row list \<Rightarrow> matchup list \<Rightarrow> prediction list \<times> skipped_game list" where
  "predict_games torvik_data matchups_df = predict_loop torvik_data matchups_df [] []"

section \<open>The aggregator (combine\_predictions.py)\<close>

text \<open>The merged table after the left join with Torvik, and after the one with Haslametrics.\<close>

record kenpom_torvik = game_key +
  Kenpom_Home :: cell
  Kenpom_Away :: cell
  Torvik_Home :: cell
  Torvik_Away :: cell

record combined = kenpom_torvik +
  Haslam_Home :: cell
  Haslam_Away :: cell

text \<open>
  \<open>DataFrame.merge(..., on=['Home Team', 'Away Team'], how='left')\<close>: every row of the
  left table, in order, once for each row of the right table with the same two names (in
  the right table's order), and once with NaN when there is none. \<open>game_of\<close> is the
  pair of names a row is merged on.
\<close>

definition game_of :: "'a game_key_scheme \<Rightarrow> string \<times> string" where
  "game_of r = (Home_Team r, Away_Team r)"

definition same_game :: "'a game_key_scheme \<Rightarrow> 'b game_key_scheme \<Rightarrow> bool" where
  "same_game l r = (Home_Team r = Home_Team l \<and> Away_Team r = Away_Team l)"

definition merge_torvik :: "prediction list \<Rightarrow> prediction list \<Rightarrow> kenpom_torvik list" where
  "merge_torvik kenpom_df torvik_df =
     concat (map (\<lambda>k.
       (let ms = filter (same_game k) torvik_df
        in if ms = []
           then [\<lparr>Home_Team = Home_Team k, Away_Team = Away_Team k,
                   Kenpom_Home = Home_Score k, Kenpom_Away = Away_Score k,
                   Torvik_Home = None, Torvik_Away = None\<rparr>]
           else map (\<lambda>t. \<lparr>Home_Team = Home_Team k, Away_Team = Away_Team k,
                          Kenpom_Home = Home_Score k, Kenpom_Away = Away_Score k,
                          Torvik_Home = Home_Score t, Torvik_Away = Away_Score t\<rparr>) ms))
       kenpom_df)"

definition merge_haslam :: "kenpom_torvik list \<Rightarrow> prediction list \<Rightarrow> combined list" where
  "merge_haslam combined_df haslam_df =
     concat (map (\<lambda>c.
       (let ms = filter (same_game c) haslam_df
        in if ms = []
           then [\<lparr>Home_Team = Home_Team c, Away_Team = Away_Team c,
                   Kenpom_Home = Kenpom_Home c, Kenpom_Away = Kenpom_Away c,
                   Torvik_Home = Torvik_Home c, Torvik_Away = Torvik_Away c,
                   Haslam_Home = None, Haslam_Away = None\<rparr>]
           else map (\<lambda>h. \<lparr>Home_Team = Home_Team c, Away_Team = Away_Team c,
                          Kenpom_Home = Kenpom_Home c, Kenpom_Away = Kenpom_Away c,
                          Torvik_Home = Torvik_Home c, Torvik_Away = Torvik_Away c,
                          Haslam_Home = Home_Score h, Haslam_Away = Away_Score h\<rparr>) ms))
       combined_df)"

text \<open>\<open>mean(axis=1, skipna=True)\<close> on one row, and \<open>round()\<close> on one cell.\<close>

fun present :: "cell list \<Rightarrow> real list" where
  "present [] = []"
| "present (None # cs) = present cs"
| "present (Some x # cs) = x # present cs"

definition mean_skipna :: "cell list \<Rightarrow> cell" where
  "mean_skipna cs =
     (let xs = present cs
      in if xs = [] then None else Some (sum_list xs / real (length xs)))"

definition round_cell :: "cell \<Rightarrow> cell" where
  "round_cell c = (case c of None \<Rightarrow> None | Some x \<Rightarrow> Some (of_int (round_half_even x)))"

text \<open>\<open>combine_predictions\<close> once the three files are loaded: the rows of \<open>final_df\<close>.\<close>

definition combine_predictions ::
    "prediction list \<Rightarrow> prediction list \<Rightarrow> prediction list \<Rightarrow> prediction list" where
  "combine_predictions kenpom_df torvik_df haslam_df =
     map (\<lambda>c. \<lparr>Home_Team = Home_Team c, Away_Team = Away_Team c,
                Home_Score = round_cell (mean_skipna [Kenpom_Home c, Torvik_Home c, Haslam_Home c]),
                Away_Score = round_cell (mean_skipna [Kenpom_Away c, Torvik_Away c, Haslam_Away c])\<rparr>)
       (merge_haslam (merge_torvik kenpom_df torvik_df) haslam_df)"

section \<open>The winner colours of a game card (game\_card\_generator.py)\<close>

text \<open>
  \<open>create_game_card\<close> compares the two scores it is given; a comparison with NaN is
  false. The card prints each score in the colour computed here.
\<close>

definition home_winning :: "cell \<Rightarrow> cell \<Rightarrow> bool" where
  "home_winning hs as =
     (case (hs, as) of (Some h, Some a) \<Rightarrow> h > a | _ \<Rightarrow> False)"

definition home_color :: "cell \<Rightarrow> cell \<Rightarrow> string" where
  "home_color hs as = (if home_winning hs as then ''#d32f2f'' else ''#222'')"

definition away_color :: "cell \<Rightarrow> cell \<Rightarrow> string" where
  "away_color hs as = (if \<not> home_winning hs as then ''#d32f2f'' else ''#222'')"

section \<open>Team-name normalisation (fetch\_daily\_games.py, haslametric\_scrape.py)\<close>

text \<open>
  \<open>get_canonical_name\<close> is imported from the module \<open>team_mapping\<close>; it is a parameter
  here. The source tests its result for truth, so both \<open>None\<close> and the empty string count
  as "no mapping".
\<close>

type_synonym canonical = "string \<Rightarrow> string option"

definition truthy :: "string option \<Rightarrow> bool" where
  "truthy r = (case r of None \<Rightarrow> False | Some s \<Rightarrow> s \<noteq> [])"

text \<open>
  The \<open>if normalized: ... else: ...\<close> block that both functions repeat for each side:
  the name written back to the table, and the list \<open>unmapped_teams\<close> after it.
\<close>

definition write_back :: "canonical \<Rightarrow> string \<Rightarrow> string list \<Rightarrow> string \<times> string list" where
  "write_back get_canonical_name name unmapped_teams =
     (let normalized = get_canonical_name name
      in if truthy normalized then (the normalized, unmapped_teams)
         else (name, if name \<notin> set unmapped_teams then unmapped_teams @ [name]
                     else unmapped_teams))"

text \<open>fetch\_daily\_games.py: the home side first, the names as ESPN gives them.\<close>

fun espn_loop ::
    "canonical \<Rightarrow> 'a teams_scheme list \<Rightarrow> string list \<Rightarrow> 'a teams_scheme list \<times> string list" where
  "espn_loop g [] unmapped_teams = ([], unmapped_teams)"
| "espn_loop g (row # rows) unmapped_teams =
     (let (h, u1) = write_back g (home_team row) unmapped_teams;
          (a, u2) = write_back g (away_team row) u1;
          (rows', u3) = espn_loop g rows u2
      in (row\<lparr>home_team := h, away_team := a\<rparr> # rows', u3))"

definition espn_normalize_team_names ::
    "canonical \<Rightarrow> 'a teams_scheme list \<Rightarrow> 'a teams_scheme list \<times> string list" where
  "espn_normalize_team_names g df = espn_loop g df []"

text \<open>
  haslametric\_scrape.py first removes the ranking number:
  \<open>re.sub(r'\s*\d+$', '', name).strip()\<close>. A character is a code point below 256;
  \<open>\s\<close> and \<open>strip\<close> use the same whitespace, \<open>\d\<close> the ten digits. \<open>$\<close> matches at
  the end of the string and before a newline that ends it, so the match is the last run of
  digits there with the whitespace before it. \<open>strip_while P\<close> removes the longest
  suffix whose characters all satisfy \<open>P\<close>.
\<close>

definition is_space :: "char \<Rightarrow> bool" where
  "is_space c = ((of_char c :: nat) \<in> {9, 10, 11, 12, 13, 28, 29, 30, 31, 32, 133, 160})"

definition is_digit :: "char \<Rightarrow> bool" where
  "is_digit c = (48 \<le> (of_char c :: nat) \<and> (of_char c :: nat) \<le> 57)"

definition strip :: "string \<Rightarrow> string" where
  "strip s = strip_while is_space (dropWhile is_space s)"

definition sub_ranking :: "string \<Rightarrow> string" where
  "sub_ranking s =
     (let (body, tail) = (if s \<noteq> [] \<and> last s = CHR 0x0A then (butlast s, [CHR 0x0A])
                          else (s, []))
      in if body \<noteq> [] \<and> is_digit (last body)
         then strip_while is_space (strip_while is_digit body) @ tail
         else s)"

definition clean_name :: "string \<Rightarrow> string" where
  "clean_name name = strip (sub_ranking name)"

text \<open>haslametric\_scrape.py: the away side first, the cleaned names.\<close>

fun haslam_loop ::
    "canonical \<Rightarrow> 'a teams_scheme list \<Rightarrow> string list \<Rightarrow> 'a teams_scheme list \<times> string list" where
  "haslam_loop g [] unmapped_teams = ([], unmapped_teams)"
| "haslam_loop g (row # rows) unmapped_teams =
     (let away_clean = clean_name (away_team row);
          home_clean = clean_name (home_team row);
          (a, u1) = write_back g away_clean unmapped_teams;
          (h, u2) = write_back g home_clean u1;
          (rows', u3) = haslam_loop g rows u2
      in (row\<lparr>away_team := a, home_team := h\<rparr> # rows', u3))"

definition haslam_normalize_team_names ::
    "canonical \<Rightarrow> 'a teams_scheme list \<Rightarrow> 'a teams_scheme list \<times> string list" where
  "haslam_normalize_team_names g df = haslam_loop g df []"

text \<open>
  The names printed under the warning, one line each:
  \<open>for team in sorted(set(unmapped_teams))\<close>.
\<close>

definition unmapped_report :: "string list \<Rightarrow> string list" where
  "unmapped_report unmapped_teams =
     (if unmapped_teams \<noteq> [] then sorted_list_of_set (set unmapped_teams) else [])"

section \<open>Lemmas: team lookup and the score model\<close>

lemma get_team_data_None: "get_team_data df t = None \<longleftrightarrow> (\<forall>r\<in>set df. Team r \<noteq> t)"
  by (auto simp: get_team_data_def Let_def filter_empty_conv)

lemma get_team_data_Some:
  "get_team_data df t = Some r \<Longrightarrow>
     \<exists>pre post. df = pre @ r # post \<and> Team r = t \<and> (\<forall>x\<in>set pre. Team x \<noteq> t)"
proof (induction df)
  case Nil
  then show ?case by (simp add: get_team_data_def)
next
  case (Cons x xs)
  show ?case
  proof (cases "Team x = t")
    case True
    with Cons.prems have "r = x" by (simp add: get_team_data_def)
    with True have "x # xs = [] @ r # xs \<and> Team r = t \<and> (\<forall>y\<in>set []. Team y \<noteq> t)"
      by simp
    then show ?thesis by blast
  next
    case False
    with Cons.prems have "get_team_data xs t = Some r" by (simp add: get_team_data_def)
    from Cons.IH[OF this] obtain pre post where
      "xs = pre @ r # post" "Team r = t" "\<forall>y\<in>set pre. Team y \<noteq> t" by blast
    with False have
      "x # xs = (x # pre) @ r # post \<and> Team r = t \<and> (\<forall>y\<in>set (x # pre). Team y \<noteq> t)"
      by simp
    then show ?thesis by blast
  qed
qed

section \<open>Lemmas: the loop of predict\_games\<close>

lemma predict_loop_acc:
  "predict_loop df ms P S =
     (P @ fst (predict_loop df ms [] []), S @ snd (predict_loop df ms [] []))"
proof (induction ms arbitrary: P S)
  case Nil
  show ?case by simp
next
  case (Cons m ms)
  note ih = Cons.IH
  show ?case
    by (simp split: sum.splits add: ih[of P "S @ _"] ih[of "P @ _" S] ih[of "[]" "[_]"] ih[of "[_]" "[]"])
qed

lemma present_scores:
  assumes "get_team_data df hn = Some h" and "get_team_data df an = Some a"
  shows "\<exists>hs as. calculate_home_score df hn an n = Inr hs \<and> calculate_away_score df an hn = Inr as"
  using assms
  by (simp add: calculate_tempo_def calculate_home_score_def calculate_away_score_def Let_def)

lemma predict_games_Nil: "predict_games df [] = ([], [])"
  by (simp add: predict_games_def)

lemma predict_games_skip:
  assumes "get_team_data df (home_team m) = None \<or> get_team_data df (away_team m) = None"
  shows "predict_games df (m # ms) =
           (fst (predict_games df ms),
            \<lparr>skipped_home = home_team m, skipped_away = away_team m, skipped_error = None\<rparr>
              # snd (predict_games df ms))"
  using assms by (simp add: predict_games_def predict_loop_acc[of df ms "[]" "[_]"])

lemma predict_games_keep:
  assumes "calculate_home_score df (home_team m) (away_team m) (neutral_site m) = Inr hs"
    and "calculate_away_score df (away_team m) (home_team m) = Inr as"
  shows "predict_games df (m # ms) =
           (\<lparr>Home_Team = home_team m, Away_Team = away_team m,
              Home_Score = Some (round1 hs), Away_Score = Some (round1 as)\<rparr>
              # fst (predict_games df ms),
            snd (predict_games df ms))"
proof -
  from assms(1) have "get_team_data df (home_team m) \<noteq> None \<and> get_team_data df (away_team m) \<noteq> None"
    by (auto simp: calculate_home_score_def calculate_tempo_def split: option.splits)
  with assms show ?thesis
    by (auto simp: predict_games_def predict_loop_acc[of df ms "[_]" "[]"])
qed


lemma predict_games_cases:
  obtains (keep) hs as where
      "calculate_home_score df (home_team m) (away_team m) (neutral_site m) = Inr hs"
      "calculate_away_score df (away_team m) (home_team m) = Inr as"
      "get_team_data df (home_team m) \<noteq> None" "get_team_data df (away_team m) \<noteq> None"
    | (skip) "get_team_data df (home_team m) = None \<or> get_team_data df (away_team m) = None"
proof (cases "get_team_data df (home_team m) = None \<or> get_team_data df (away_team m) = None")
  case True
  then show ?thesis by (rule skip)
next
  case False
  then obtain h a where ha: "get_team_data df (home_team m) = Some h"
      "get_team_data df (away_team m) = Some a" by auto
  from present_scores[OF ha, of "neutral_site m"] obtain hs as where
    "calculate_home_score df (home_team m) (away_team m) (neutral_site m) = Inr hs"
    "calculate_away_score df (away_team m) (home_team m) = Inr as" by blast
  with ha show ?thesis by (auto intro: keep)
qed

lemma predictions_origin:
  assumes "p \<in> set (fst (predict_games df ms))"
  shows "\<exists>m\<in>set ms. \<exists>hs as.
           calculate_home_score df (home_team m) (away_team m) (neutral_site m) = Inr hs
         \<and> calculate_away_score df (away_team m) (home_team m) = Inr as
         \<and> p = \<lparr>Home_Team = home_team m, Away_Team = away_team m,
                  Home_Score = Some (round1 hs), Away_Score = Some (round1 as)\<rparr>"
  using assms
proof (induction ms)
  case Nil
  then show ?case by (simp add: predict_games_Nil)
next
  case (Cons m ms)
  show ?case
  proof (cases rule: predict_games_cases[of df m])
    case (keep hs as)
    note h = keep(1) and a = keep(2) and p = keep(3,4)
    from Cons.prems predict_games_keep[OF h a, of ms]
    have "p = \<lparr>Home_Team = home_team m, Away_Team = away_team m,
                  Home_Score = Some (round1 hs), Away_Score = Some (round1 as)\<rparr>
          \<or> p \<in> set (fst (predict_games df ms))" by auto
    with h a Cons.IH show ?thesis by auto
  next
    case skip
    from Cons.prems predict_games_skip[OF skip, of ms]
    have "p \<in> set (fst (predict_games df ms))" by simp
    with Cons.IH show ?thesis by auto
  qed
qed

lemma skipped_recorded:
  assumes "m \<in> set ms"
    and "get_team_data df (home_team m) = None \<or> get_team_data df (away_team m) = None"
  shows "\<lparr>skipped_home = home_team m, skipped_away = away_team m, skipped_error = None\<rparr>
           \<in> set (snd (predict_games df ms))"
  using assms(1)
proof (induction ms)
  case Nil
  then show ?case by simp
next
  case (Cons x xs)
  show ?case
  proof (cases rule: predict_games_cases[of df x])
    case (keep hs as)
    note h = keep(1) and a = keep(2) and p = keep(3,4)
    from p assms(2) have "m \<noteq> x" by auto
    with Cons have "\<lparr>skipped_home = home_team m, skipped_away = away_team m, skipped_error = None\<rparr>
           \<in> set (snd (predict_games df xs))" by simp
    then show ?thesis by (simp add: predict_games_keep[OF h a])
  next
    case skip
    note s = skip
    from Cons show ?thesis by (auto simp: predict_games_skip[OF s])
  qed
qed

lemma predict_games_append:
  "predict_games df (ms1 @ ms2) =
     (fst (predict_games df ms1) @ fst (predict_games df ms2),
      snd (predict_games df ms1) @ snd (predict_games df ms2))"
proof (induction ms1)
  case Nil
  show ?case by (simp add: predict_games_Nil)
next
  case (Cons x xs)
  show ?case
  proof (cases rule: predict_games_cases[of df x])
    case (keep hs as)
    note h = keep(1) and a = keep(2) and p = keep(3,4)
    show ?thesis using Cons.IH by (simp add: predict_games_keep[OF h a])
  next
    case skip
    note s = skip
    show ?thesis using Cons.IH by (simp add: predict_games_skip[OF s])
  qed
qed

section \<open>Lemmas: the two left joins\<close>

lemma same_game_game_of: "same_game l r \<longleftrightarrow> game_of r = game_of l"
  by (auto simp: same_game_def game_of_def)



lemma merge_torvik_games:
  "map game_of (merge_torvik K T) =
     concat (map (\<lambda>k. replicate (max 1 (length (filter (same_game k) T))) (game_of k)) K)"
proof (induction K)
  case Nil
  show ?case by (simp add: merge_torvik_def)
next
  case (Cons k K)
  have "map game_of (merge_torvik (k # K) T) =
          replicate (max 1 (length (filter (same_game k) T))) (game_of k)
            @ map game_of (merge_torvik K T)"
    by (simp add: merge_torvik_def Let_def game_of_def comp_def map_replicate_const max_def
          Suc_le_eq)
  with Cons.IH show ?case by simp
qed

lemma merge_haslam_games:
  "map game_of (merge_haslam C H) =
     concat (map (\<lambda>c. replicate (max 1 (length (filter (same_game c) H))) (game_of c)) C)"
proof (induction C)
  case Nil
  show ?case by (simp add: merge_haslam_def)
next
  case (Cons c C)
  have "map game_of (merge_haslam (c # C) H) =
          replicate (max 1 (length (filter (same_game c) H))) (game_of c)
            @ map game_of (merge_haslam C H)"
    by (simp add: merge_haslam_def Let_def game_of_def comp_def map_replicate_const max_def
          Suc_le_eq)
  with Cons.IH show ?case by simp
qed

lemma combine_games:
  "map game_of (combine_predictions K T H) = map game_of (merge_haslam (merge_torvik K T) H)"
  by (simp add: combine_predictions_def game_of_def comp_def)

lemma set_concat_replicate:
  "set (concat (map (\<lambda>x. replicate (max 1 (n x)) (f x)) xs)) = f ` set xs"
  by (induction xs) auto

lemma combine_games_set:
  "set (map game_of (combine_predictions K T H)) = game_of ` set K"
proof -
  have "set (map game_of (combine_predictions K T H)) = game_of ` set (merge_torvik K T)"
    by (simp only: combine_games merge_haslam_games set_concat_replicate)
  also have "\<dots> = set (map game_of (merge_torvik K T))" by simp
  also have "\<dots> = game_of ` set K"
    by (simp only: merge_torvik_games set_concat_replicate)
  finally show ?thesis .
qed

lemma distinct_filter_le1:
  "distinct (map f xs) \<Longrightarrow> length (filter (\<lambda>x. f x = y) xs) \<le> 1"
proof (induction xs)
  case Nil
  show ?case by simp
next
  case (Cons x xs)
  show ?case
  proof (cases "f x = y")
    case True
    with Cons.prems have "\<forall>z\<in>set xs. f z \<noteq> y" by (auto simp: image_iff)
    then have "filter (\<lambda>x. f x = y) xs = []" by (simp add: filter_empty_conv)
    with True show ?thesis by simp
  next
    case False
    with Cons show ?thesis by simp
  qed
qed

lemma same_game_le1:
  "distinct (map game_of T) \<Longrightarrow> max 1 (length (filter (same_game k) T)) = 1"
  using distinct_filter_le1[of game_of T "game_of k"]
  by (simp add: same_game_game_of[abs_def] max_def)

lemma concat_singletons: "concat (map (\<lambda>x. replicate 1 (f x)) xs) = map f xs"
  by (induction xs) auto

lemma combine_games_distinct:
  assumes "distinct (map game_of T)" and "distinct (map game_of H)"
  shows "map game_of (combine_predictions K T H) = map game_of K"
proof -
  have "map game_of (merge_torvik K T) = map game_of K"
    by (simp only: merge_torvik_games same_game_le1[OF assms(1)] concat_singletons)
  moreover have "map game_of (merge_haslam (merge_torvik K T) H) = map game_of (merge_torvik K T)"
    by (simp only: merge_haslam_games same_game_le1[OF assms(2)] concat_singletons)
  ultimately show ?thesis by (simp only: combine_games)
qed




section \<open>Lemmas: name normalisation\<close>

lemma write_back_fst:
  "fst (write_back g n u) = (if truthy (g n) then the (g n) else n)"
  by (simp add: write_back_def Let_def)

lemma write_back_set:
  "set (snd (write_back g n u)) = set u \<union> (if truthy (g n) then {} else {n})"
  by (auto simp: write_back_def Let_def)

lemma espn_loop_rows:
  "fst (espn_loop g rows u) =
     map (\<lambda>row. row\<lparr>home_team := (if truthy (g (home_team row)) then the (g (home_team row))
                                    else home_team row),
                     away_team := (if truthy (g (away_team row)) then the (g (away_team row))
                                    else away_team row)\<rparr>) rows"
proof (induction rows arbitrary: u)
  case Nil
  show ?case by simp
next
  case (Cons row rows)
  show ?case
    by (simp add: Cons.IH split_beta Let_def write_back_fst)
qed

lemma espn_loop_unmapped:
  "set (snd (espn_loop g rows u)) =
     set u \<union> {n. \<not> truthy (g n) \<and> (\<exists>row\<in>set rows. n = home_team row \<or> n = away_team row)}"
proof (induction rows arbitrary: u)
  case Nil
  show ?case by simp
next
  case (Cons row rows)
  show ?case
    by (simp add: Cons.IH split_beta Let_def write_back_set) blast
qed

lemma haslam_loop_rows:
  "fst (haslam_loop g rows u) =
     map (\<lambda>row. row\<lparr>away_team := (if truthy (g (clean_name (away_team row)))
                                    then the (g (clean_name (away_team row)))
                                    else clean_name (away_team row)),
                     home_team := (if truthy (g (clean_name (home_team row)))
                                    then the (g (clean_name (home_team row)))
                                    else clean_name (home_team row))\<rparr>) rows"
proof (induction rows arbitrary: u)
  case Nil
  show ?case by simp
next
  case (Cons row rows)
  show ?case
    by (simp add: Cons.IH split_beta Let_def write_back_fst)
qed

lemma haslam_loop_unmapped:
  "set (snd (haslam_loop g rows u)) =
     set u \<union> {n. \<not> truthy (g n) \<and>
                 (\<exists>row\<in>set rows. n = clean_name (home_team row) \<or> n = clean_name (away_team row))}"
proof (induction rows arbitrary: u)
  case Nil
  show ?case by simp
next
  case (Cons row rows)
  show ?case
    by (simp add: Cons.IH split_beta Let_def write_back_set) blast
qed

lemma count_list_distinct:
  "distinct xs \<Longrightarrow> x \<in> set xs \<Longrightarrow> count_list xs x = 1"
  by (induction xs) auto

lemma report_once:
  "n \<in> set u \<Longrightarrow> count_list (unmapped_report u) n = 1"
proof -
  assume n: "n \<in> set u"
  then have "u \<noteq> []" by auto
  then have r: "unmapped_report u = sorted_list_of_set (set u)" by (simp add: unmapped_report_def)
  have "distinct (sorted_list_of_set (set u))" by simp
  moreover have "n \<in> set (sorted_list_of_set (set u))" using n by simp
  ultimately show ?thesis unfolding r by (rule count_list_distinct)
qed

lemma report_absent:
  "n \<notin> set u \<Longrightarrow> count_list (unmapped_report u) n = 0"
  by (simp add: unmapped_report_def)

lemma space_not_digit: "is_space c \<Longrightarrow> \<not> is_digit c"
  by (auto simp: is_space_def is_digit_def)

lemma digit_not_newline: "is_digit c \<Longrightarrow> c \<noteq> CHR 0x0A"
  by (auto simp: is_digit_def)

lemma strip_while_suffix:
  "\<forall>y\<in>set ys. P y \<Longrightarrow> strip_while P (xs @ ys) = strip_while P xs"
proof -
  assume "\<forall>y\<in>set ys. P y"
  then have "dropWhile P (rev ys @ rev xs) = dropWhile P (rev xs)"
    by (intro dropWhile_append2) simp
  then show ?thesis by (simp add: strip_while_def)
qed

lemma strip_while_keep:
  "xs \<noteq> [] \<Longrightarrow> \<not> P (last xs) \<Longrightarrow> strip_while P (ys @ xs) = ys @ xs"
  by (induction xs rule: rev_induct) (simp_all flip: append_assoc)

lemma clean_name_ranking:
  assumes ws: "ws \<noteq> []" "\<forall>c\<in>set ws. is_space c"
    and ds: "ds \<noteq> []" "\<forall>c\<in>set ds. is_digit c"
  shows "clean_name (base @ ws @ ds) = strip base"
proof -
  let ?s = "base @ ws @ ds"
  from ds have l: "last ?s = last ds" "is_digit (last ds)" by auto
  then have nl: "last ?s \<noteq> CHR 0x0A" by (simp add: digit_not_newline)
  from ws have "\<not> is_digit (last ws)" by (simp add: space_not_digit)
  then have keep: "strip_while is_digit (base @ ws) = base @ ws"
    using ws(1) by (rule strip_while_keep[rotated])
  have "strip_while is_digit ?s = strip_while is_digit (base @ ws)"
    using strip_while_suffix[OF ds(2), of "base @ ws"] by simp
  with keep have "strip_while is_space (strip_while is_digit ?s) = strip_while is_space (base @ ws)"
    by simp
  also have "\<dots> = strip_while is_space base" using ws(2) by (rule strip_while_suffix)
  finally have "sub_ranking ?s = strip_while is_space base"
    using nl l ds(1) by (simp add: sub_ranking_def)
  then show ?thesis
    by (simp add: clean_name_def strip_def dropWhile_strip_while_commute)
qed

section \<open>Properties of the specification\<close>

subsection \<open>The score formulas\<close>

text \<open>
  C1. When both teams are in the ratings table, the score model returns
  tempo = (home AdjT * away AdjT) / 67.6, home score = (home AdjO * away AdjD * tempo) /
  (110.3 * 100) plus the home team's HCA exactly when the site is not neutral (3.0 when the
  table has no HCA column), and away score = (away AdjO * home AdjD * tempo) / (110.3 * 100)
  with no HCA term.
\<close>

theorem score_model_formula:
  assumes "get_team_data torvik_data home_name = Some h"
    and "get_team_data torvik_data away_name = Some a"
  shows "calculate_tempo torvik_data home_name away_name = Inr ((AdjT h * AdjT a) / 67.6)
       \<and> calculate_home_score torvik_data home_name away_name neutral =
           Inr ((AdjO h * AdjD a * ((AdjT h * AdjT a) / 67.6)) / (110.3 * 100)
                + (if neutral then 0 else (case HCA h of Some v \<Rightarrow> v | None \<Rightarrow> 3.0)))
       \<and> calculate_away_score torvik_data away_name home_name =
           Inr ((AdjO a * AdjD h * ((AdjT h * AdjT a) / 67.6)) / (110.3 * 100))"
  using assms
  by (simp add: calculate_tempo_def calculate_home_score_def calculate_away_score_def
        D1_AVERAGES_tempo_def D1_AVERAGES_def_efficiency_def Let_def split: option.splits)

theorem score_model_formula_witness:
  "get_team_data
     [\<lparr>Team = ''Duke'', AdjO = 120, AdjD = 95, AdjT = 67.6, HCA = Some 3.5\<rparr>,
      \<lparr>Team = ''Iowa'', AdjO = 110.3, AdjD = 100, AdjT = 70, HCA = Some 4\<rparr>] ''Duke''
     = Some \<lparr>Team = ''Duke'', AdjO = 120, AdjD = 95, AdjT = 67.6, HCA = Some 3.5\<rparr>
   \<and> get_team_data
     [\<lparr>Team = ''Duke'', AdjO = 120, AdjD = 95, AdjT = 67.6, HCA = Some 3.5\<rparr>,
      \<lparr>Team = ''Iowa'', AdjO = 110.3, AdjD = 100, AdjT = 70, HCA = Some 4\<rparr>] ''Iowa''
     = Some \<lparr>Team = ''Iowa'', AdjO = 110.3, AdjD = 100, AdjT = 70, HCA = Some 4\<rparr>
   \<and> calculate_tempo
     [\<lparr>Team = ''Duke'', AdjO = 120, AdjD = 95, AdjT = 67.6, HCA = Some 3.5\<rparr>,
      \<lparr>Team = ''Iowa'', AdjO = 110.3, AdjD = 100, AdjT = 70, HCA = Some 4\<rparr>] ''Duke'' ''Iowa''
     = Inr 70
   \<and> calculate_home_score
     [\<lparr>Team = ''Duke'', AdjO = 120, AdjD = 95, AdjT = 67.6, HCA = Some 3.5\<rparr>,
      \<lparr>Team = ''Iowa'', AdjO = 110.3, AdjD = 100, AdjT = 70, HCA = Some 4\<rparr>] ''Duke'' ''Iowa'' False
     = Inr (175721 / 2206)
   \<and> calculate_away_score
     [\<lparr>Team = ''Duke'', AdjO = 120, AdjD = 95, AdjT = 67.6, HCA = Some 3.5\<rparr>,
      \<lparr>Team = ''Iowa'', AdjO = 110.3, AdjD = 100, AdjT = 70, HCA = Some 4\<rparr>] ''Iowa'' ''Duke''
     = Inr 66.5"
proof -
  let ?d = "\<lparr>Team = ''Duke'', AdjO = 120, AdjD = 95, AdjT = 67.6, HCA = Some 3.5\<rparr>"
  let ?i = "\<lparr>Team = ''Iowa'', AdjO = 110.3, AdjD = 100, AdjT = 70, HCA = Some (4::real)\<rparr>"
  have h: "get_team_data [?d, ?i] ''Duke'' = Some ?d" by (simp add: get_team_data_def)
  have a: "get_team_data [?d, ?i] ''Iowa'' = Some ?i" by (simp add: get_team_data_def)
  show ?thesis using h a score_model_formula[OF h a, of False] by simp
qed

subsection \<open>The consensus score\<close>



subsection \<open>Which games are in the combined output\<close>

text \<open>
  C3 as stated fails: a game that only Torvik predicts is not in the combined output.
\<close>

theorem torvik_only_game_is_dropped:
  "combine_predictions []
     [\<lparr>Home_Team = ''Duke'', Away_Team = ''Iowa'', Home_Score = Some 73, Away_Score = Some 68\<rparr>]
     [] = []"
  by (simp add: combine_predictions_def merge_torvik_def merge_haslam_def)

text \<open>
  C3, amended. The combined output is built on Kenpom's table by two left joins: a game
  has a consensus row exactly when Kenpom has a row for it, whatever Torvik and
  Haslametrics have; and when Torvik and Haslametrics list each game at most once, the
  output has one row for each Kenpom row, in Kenpom's order.
\<close>

theorem combined_games_are_kenpom_games:
  "((\<exists>r\<in>set (combine_predictions kenpom_df torvik_df haslam_df). game_of r = g)
      \<longleftrightarrow> (\<exists>k\<in>set kenpom_df. game_of k = g))
   \<and> (distinct (map game_of torvik_df) \<and> distinct (map game_of haslam_df) \<longrightarrow>
        map game_of (combine_predictions kenpom_df torvik_df haslam_df) = map game_of kenpom_df)"
proof (intro conjI impI)
  have "(\<exists>r\<in>set (combine_predictions kenpom_df torvik_df haslam_df). game_of r = g)
         \<longleftrightarrow> g \<in> set (map game_of (combine_predictions kenpom_df torvik_df haslam_df))"
    by auto
  also have "\<dots> \<longleftrightarrow> g \<in> game_of ` set kenpom_df" by (simp only: combine_games_set)
  also have "\<dots> \<longleftrightarrow> (\<exists>k\<in>set kenpom_df. game_of k = g)" by auto
  finally show "(\<exists>r\<in>set (combine_predictions kenpom_df torvik_df haslam_df). game_of r = g)
      \<longleftrightarrow> (\<exists>k\<in>set kenpom_df. game_of k = g)" .
next
  assume "distinct (map game_of torvik_df) \<and> distinct (map game_of haslam_df)"
  then show "map game_of (combine_predictions kenpom_df torvik_df haslam_df) = map game_of kenpom_df"
    by (intro combine_games_distinct) simp_all
qed

theorem combined_games_are_kenpom_games_witness:
  "distinct (map game_of
       [\<lparr>Home_Team = ''Duke'', Away_Team = ''Iowa'', Home_Score = Some 73, Away_Score = Some 68\<rparr>,
        \<lparr>Home_Team = ''Yale'', Away_Team = ''Penn'', Home_Score = Some 66, Away_Score = Some 61\<rparr>])
   \<and> distinct (map game_of
       [\<lparr>Home_Team = ''Duke'', Away_Team = ''Iowa'', Home_Score = Some 74, Away_Score = Some 69\<rparr>])
   \<and> map game_of (combine_predictions
       [\<lparr>Home_Team = ''Duke'', Away_Team = ''Iowa'', Home_Score = Some 75, Away_Score = Some 70\<rparr>]
       [\<lparr>Home_Team = ''Duke'', Away_Team = ''Iowa'', Home_Score = Some 73, Away_Score = Some 68\<rparr>,
        \<lparr>Home_Team = ''Yale'', Away_Team = ''Penn'', Home_Score = Some 66, Away_Score = Some 61\<rparr>]
       [\<lparr>Home_Team = ''Duke'', Away_Team = ''Iowa'', Home_Score = Some 74, Away_Score = Some 69\<rparr>])
     = [(''Duke'', ''Iowa'')]
   \<and> \<not> (\<exists>r\<in>set (combine_predictions
       [\<lparr>Home_Team = ''Duke'', Away_Team = ''Iowa'', Home_Score = Some 75, Away_Score = Some 70\<rparr>]
       [\<lparr>Home_Team = ''Duke'', Away_Team = ''Iowa'', Home_Score = Some 73, Away_Score = Some 68\<rparr>,
        \<lparr>Home_Team = ''Yale'', Away_Team = ''Penn'', Home_Score = Some 66, Away_Score = Some 61\<rparr>]
       [\<lparr>Home_Team = ''Duke'', Away_Team = ''Iowa'', Home_Score = Some 74, Away_Score = Some 69\<rparr>]).
         game_of r = (''Yale'', ''Penn''))"
proof -
  let ?K = "[\<lparr>Home_Team = ''Duke'', Away_Team = ''Iowa'', Home_Score = Some (75::real), Away_Score = Some (70::real)\<rparr>]"
  let ?T = "[\<lparr>Home_Team = ''Duke'', Away_Team = ''Iowa'', Home_Score = Some (73::real), Away_Score = Some (68::real)\<rparr>,
        \<lparr>Home_Team = ''Yale'', Away_Team = ''Penn'', Home_Score = Some 66, Away_Score = Some 61\<rparr>]"
  let ?H = "[\<lparr>Home_Team = ''Duke'', Away_Team = ''Iowa'', Home_Score = Some (74::real), Away_Score = Some (69::real)\<rparr>]"
  have dT: "distinct (map game_of ?T)" by (simp add: game_of_def)
  have dH: "distinct (map game_of ?H)" by (simp add: game_of_def)
  note th = combined_games_are_kenpom_games[of ?K ?T ?H "(''Yale'', ''Penn'')"]
  from th dT dH have "map game_of (combine_predictions ?K ?T ?H) = map game_of ?K" by blast
  then have m: "map game_of (combine_predictions ?K ?T ?H) = [(''Duke'', ''Iowa'')]"
    by (simp add: game_of_def)
  have "\<not> (\<exists>k\<in>set ?K. game_of k = (''Yale'', ''Penn''))" by (simp add: game_of_def)
  with th have n: "\<not> (\<exists>r\<in>set (combine_predictions ?K ?T ?H). game_of r = (''Yale'', ''Penn''))"
    by blast
  from dT dH m n show ?thesis by (intro conjI)
qed

subsection \<open>Where scores are rounded\<close>




subsection \<open>The winner on a game card\<close>

text \<open>
  C5. On a game card the home score is printed in the winner's colour exactly when the
  home score is greater than the away score. With equal scores \<open>home_winning\<close> is false
  and the away score is printed in the winner's colour: the card shows the away team as
  the winner, not a tie.
\<close>

theorem tie_shows_away_as_winner:
  "home_winning (Some 70) (Some 70) = False
   \<and> home_color (Some 70) (Some 70) = ''#222''
   \<and> away_color (Some 70) (Some 70) = ''#d32f2f''"
  by (simp add: home_color_def away_color_def home_winning_def)

lemma home_red_iff_greater:
  "home_color (Some h) (Some a) = ''#d32f2f'' \<longleftrightarrow> h > a"
  by (simp add: home_color_def home_winning_def)

lemma away_red_iff_not_greater:
  "away_color (Some h) (Some a) = ''#d32f2f'' \<longleftrightarrow> h \<le> a"
  by (auto simp: away_color_def home_winning_def)

subsection \<open>Matchups without ratings\<close>

text \<open>
  C6. When either team of a matchup has no row in the ratings table, \<open>predict_games\<close>
  emits no prediction for that pair of teams, appends the pair to \<open>skipped\<close> (without an
  error text), and goes on: the predictions are those of the matchups before it followed by
  those of the matchups after it. \<open>predict_games\<close> has no error result.
\<close>

theorem missing_team_is_skipped:
  assumes "m \<in> set matchups_df"
    and "get_team_data torvik_data (home_team m) = None
          \<or> get_team_data torvik_data (away_team m) = None"
  shows "(\<forall>p\<in>set (fst (predict_games torvik_data matchups_df)).
            \<not> (Home_Team p = home_team m \<and> Away_Team p = away_team m))
       \<and> \<lparr>skipped_home = home_team m, skipped_away = away_team m, skipped_error = None\<rparr>
            \<in> set (snd (predict_games torvik_data matchups_df))
       \<and> (\<forall>before after. matchups_df = before @ m # after \<longrightarrow>
            fst (predict_games torvik_data matchups_df) =
              fst (predict_games torvik_data before) @ fst (predict_games torvik_data after))"
proof (intro conjI ballI allI impI)
  fix p
  assume p: "p \<in> set (fst (predict_games torvik_data matchups_df))"
  show "\<not> (Home_Team p = home_team m \<and> Away_Team p = away_team m)"
  proof
    assume same: "Home_Team p = home_team m \<and> Away_Team p = away_team m"
    from predictions_origin[OF p] obtain m' :: matchup and hs as where
      m': "calculate_home_score torvik_data (home_team m') (away_team m') (neutral_site m') = Inr hs"
      and p': "p = \<lparr>Home_Team = home_team m', Away_Team = away_team m',
                    Home_Score = Some (round1 hs), Away_Score = Some (round1 as)\<rparr>"
      by blast
    from p' same have "home_team m' = home_team m" "away_team m' = away_team m" by simp_all
    with m' have "get_team_data torvik_data (home_team m) \<noteq> None
                  \<and> get_team_data torvik_data (away_team m) \<noteq> None"
      by (auto simp: calculate_home_score_def calculate_tempo_def split: option.splits)
    with assms(2) show False by blast
  qed
next
  show "\<lparr>skipped_home = home_team m, skipped_away = away_team m, skipped_error = None\<rparr>
          \<in> set (snd (predict_games torvik_data matchups_df))"
    using assms by (rule skipped_recorded)
next
  fix before after
  assume "matchups_df = before @ m # after"
  then show "fst (predict_games torvik_data matchups_df) =
          fst (predict_games torvik_data before) @ fst (predict_games torvik_data after)"
    by (simp add: predict_games_append[of torvik_data before] predict_games_skip[OF assms(2)])
qed

theorem missing_team_is_skipped_witness:
  "get_team_data
     [\<lparr>Team = ''Duke'', AdjO = 100, AdjD = 100, AdjT = 67.6, HCA = Some 3\<rparr>,
      \<lparr>Team = ''Iowa'', AdjO = 100, AdjD = 100, AdjT = 67.6, HCA = Some 3\<rparr>] ''Yale'' = None
   \<and> \<lparr>skipped_home = ''Duke'', skipped_away = ''Yale'', skipped_error = None\<rparr>
       \<in> set (snd (predict_games
            [\<lparr>Team = ''Duke'', AdjO = 100, AdjD = 100, AdjT = 67.6, HCA = Some 3\<rparr>,
             \<lparr>Team = ''Iowa'', AdjO = 100, AdjD = 100, AdjT = 67.6, HCA = Some 3\<rparr>]
            [\<lparr>home_team = ''Duke'', away_team = ''Yale'', game_id = ''1'',
               game_time = ''2026-02-04 07:00 PM'', venue = ''Cameron'', neutral_site = False,
               game_status = ''Scheduled''\<rparr>,
             \<lparr>home_team = ''Duke'', away_team = ''Iowa'', game_id = ''2'',
               game_time = ''2026-02-04 09:00 PM'', venue = ''Cameron'', neutral_site = False,
               game_status = ''Scheduled''\<rparr>]))
   \<and> fst (predict_games
            [\<lparr>Team = ''Duke'', AdjO = 100, AdjD = 100, AdjT = 67.6, HCA = Some 3\<rparr>,
             \<lparr>Team = ''Iowa'', AdjO = 100, AdjD = 100, AdjT = 67.6, HCA = Some 3\<rparr>]
            [\<lparr>home_team = ''Duke'', away_team = ''Yale'', game_id = ''1'',
               game_time = ''2026-02-04 07:00 PM'', venue = ''Cameron'', neutral_site = False,
               game_status = ''Scheduled''\<rparr>,
             \<lparr>home_team = ''Duke'', away_team = ''Iowa'', game_id = ''2'',
               game_time = ''2026-02-04 09:00 PM'', venue = ''Cameron'', neutral_site = False,
               game_status = ''Scheduled''\<rparr>])
       = [\<lparr>Home_Team = ''Duke'', Away_Team = ''Iowa'',
            Home_Score = Some 64.3, Away_Score = Some 61.3\<rparr>]"
proof -
  let ?df = "[\<lparr>Team = ''Duke'', AdjO = 100, AdjD = 100, AdjT = 67.6, HCA = Some (3::real)\<rparr>,
             \<lparr>Team = ''Iowa'', AdjO = 100, AdjD = 100, AdjT = 67.6, HCA = Some 3\<rparr>]"
  let ?m1 = "\<lparr>home_team = ''Duke'', away_team = ''Yale'', game_id = ''1'',
               game_time = ''2026-02-04 07:00 PM'', venue = ''Cameron'', neutral_site = False,
               game_status = ''Scheduled''\<rparr>"
  let ?m2 = "\<lparr>home_team = ''Duke'', away_team = ''Iowa'', game_id = ''2'',
               game_time = ''2026-02-04 09:00 PM'', venue = ''Cameron'', neutral_site = False,
               game_status = ''Scheduled''\<rparr>"
  have absent: "get_team_data ?df ''Yale'' = None" by (simp add: get_team_data_def)
  have mem: "?m1 \<in> set [?m1, ?m2]" by simp
  have hyp: "get_team_data ?df (home_team ?m1) = None \<or> get_team_data ?df (away_team ?m1) = None"
    using absent by simp
  note th = missing_team_is_skipped[OF mem hyp]
  from th have sk: "\<lparr>skipped_home = ''Duke'', skipped_away = ''Yale'', skipped_error = None\<rparr>
       \<in> set (snd (predict_games ?df [?m1, ?m2]))" by simp
  from th have "\<forall>before after. [?m1, ?m2] = before @ ?m1 # after \<longrightarrow>
            fst (predict_games ?df [?m1, ?m2]) =
              fst (predict_games ?df before) @ fst (predict_games ?df after)"
    by (elim conjE)
  then have "[?m1, ?m2] = [] @ ?m1 # [?m2] \<longrightarrow>
            fst (predict_games ?df [?m1, ?m2]) =
              fst (predict_games ?df []) @ fst (predict_games ?df [?m2])"
    by (elim allE)
  then have cont: "fst (predict_games ?df [?m1, ?m2]) =
              fst (predict_games ?df []) @ fst (predict_games ?df [?m2])" by simp
  have "fst (predict_games ?df [?m2]) = [\<lparr>Home_Team = ''Duke'', Away_Team = ''Iowa'',
            Home_Score = Some 64.3, Away_Score = Some 61.3\<rparr>]"
    by (simp add: predict_games_def get_team_data_def calculate_tempo_def
          calculate_home_score_def calculate_away_score_def D1_AVERAGES_tempo_def
          D1_AVERAGES_def_efficiency_def Let_def round1_def round_half_even_def)
  with cont have "fst (predict_games ?df [?m1, ?m2]) = [\<lparr>Home_Team = ''Duke'', Away_Team = ''Iowa'',
            Home_Score = Some 64.3, Away_Score = Some 61.3\<rparr>]"
    by (simp add: predict_games_Nil)
  with absent sk show ?thesis by (intro conjI)
qed

subsection \<open>The home margin for equal ratings\<close>

text \<open>
  The margin in exact arithmetic. With the same ratings on both sides and a site that is
  not neutral, the two projections differ by the home team's HCA. This is a fact about the
  real-number model only: Python computes \<open>(score + hca) - score\<close> in binary floating
  point, where the sum is rounded, so the difference need not be the float \<open>hca\<close>
  (ratings 110, 100, 68 and HCA 3.2 give 3.200000000000003).
\<close>

lemma exact_arithmetic_margin:
  assumes "get_team_data torvik_data home_name = Some h"
    and "get_team_data torvik_data away_name = Some a"
    and "AdjO h = AdjO a" and "AdjD h = AdjD a" and "AdjT h = AdjT a" and "HCA h = HCA a"
    and "calculate_home_score torvik_data home_name away_name False = Inr hs"
    and "calculate_away_score torvik_data away_name home_name = Inr as"
  shows "hs - as = (case HCA h of Some v \<Rightarrow> v | None \<Rightarrow> 3.0)"
  using assms
  by (simp add: calculate_tempo_def calculate_home_score_def calculate_away_score_def Let_def
        split: option.splits)

subsection \<open>Unmapped team names\<close>

text \<open>
  C8 as stated fails for the Haslametrics table: the raw name \<open>Foo 12\<close> is absent from
  the mapping table, yet the key written back is \<open>Foo\<close>, and \<open>Foo 12\<close> is not in the
  report.
\<close>

theorem haslam_fallback_is_cleaned_name:
  "map away_team (fst (haslam_normalize_team_names Map.empty
       [\<lparr>home_team = ''Bar'', away_team = ''Foo 12'', home_score = 70, away_score = 65\<rparr>]))
     = [''Foo'']
   \<and> unmapped_report (snd (haslam_normalize_team_names Map.empty
       [\<lparr>home_team = ''Bar'', away_team = ''Foo 12'', home_score = 70, away_score = 65\<rparr>]))
     = [''Bar'', ''Foo'']"
  by code_simp

text \<open>
  C8, amended. No row is dropped by either function. In fetch\_daily\_games.py a raw name
  for which \<open>get_canonical_name\<close> gives nothing is kept as the key of its row and is
  printed exactly once in the report of unmapped names, however many rows have it. In
  haslametric\_scrape.py the same holds for the cleaned name (ranking number and surrounding
  whitespace removed): when the lookup of the cleaned name gives nothing, the cleaned name
  is the key and is printed exactly once.
\<close>

theorem unmapped_name_kept_and_reported_once:
  assumes "i < length df"
  shows "length (fst (espn_normalize_team_names g df)) = length df
       \<and> length (fst (haslam_normalize_team_names g df)) = length df
       \<and> (\<not> truthy (g (home_team (df ! i))) \<longrightarrow>
            home_team (fst (espn_normalize_team_names g df) ! i) = home_team (df ! i)
          \<and> count_list (unmapped_report (snd (espn_normalize_team_names g df)))
               (home_team (df ! i)) = 1)
       \<and> (\<not> truthy (g (away_team (df ! i))) \<longrightarrow>
            away_team (fst (espn_normalize_team_names g df) ! i) = away_team (df ! i)
          \<and> count_list (unmapped_report (snd (espn_normalize_team_names g df)))
               (away_team (df ! i)) = 1)
       \<and> (\<not> truthy (g (clean_name (home_team (df ! i)))) \<longrightarrow>
            home_team (fst (haslam_normalize_team_names g df) ! i) = clean_name (home_team (df ! i))
          \<and> count_list (unmapped_report (snd (haslam_normalize_team_names g df)))
               (clean_name (home_team (df ! i))) = 1)
       \<and> (\<not> truthy (g (clean_name (away_team (df ! i)))) \<longrightarrow>
            away_team (fst (haslam_normalize_team_names g df) ! i) = clean_name (away_team (df ! i))
          \<and> count_list (unmapped_report (snd (haslam_normalize_team_names g df)))
               (clean_name (away_team (df ! i))) = 1)"
proof -
  from assms have row: "df ! i \<in> set df" by simp
  have e_mem: "\<And>n. \<not> truthy (g n) \<Longrightarrow> n = home_team (df ! i) \<or> n = away_team (df ! i)
                 \<Longrightarrow> n \<in> set (snd (espn_normalize_team_names g df))"
    using row by (auto simp: espn_normalize_team_names_def espn_loop_unmapped)
  have h_mem: "\<And>n. \<not> truthy (g n) \<Longrightarrow>
                 n = clean_name (home_team (df ! i)) \<or> n = clean_name (away_team (df ! i))
                 \<Longrightarrow> n \<in> set (snd (haslam_normalize_team_names g df))"
    using row by (auto simp: haslam_normalize_team_names_def haslam_loop_unmapped)
  show ?thesis
  proof (intro conjI impI)
    show "length (fst (espn_normalize_team_names g df)) = length df"
      by (simp add: espn_normalize_team_names_def espn_loop_rows)
    show "length (fst (haslam_normalize_team_names g df)) = length df"
      by (simp add: haslam_normalize_team_names_def haslam_loop_rows)
  next
    assume u: "\<not> truthy (g (home_team (df ! i)))"
    with assms show "home_team (fst (espn_normalize_team_names g df) ! i) = home_team (df ! i)"
      by (simp add: espn_normalize_team_names_def espn_loop_rows)
    from u show "count_list (unmapped_report (snd (espn_normalize_team_names g df)))
               (home_team (df ! i)) = 1"
      by (intro report_once e_mem) simp_all
  next
    assume u: "\<not> truthy (g (away_team (df ! i)))"
    with assms show "away_team (fst (espn_normalize_team_names g df) ! i) = away_team (df ! i)"
      by (simp add: espn_normalize_team_names_def espn_loop_rows)
    from u show "count_list (unmapped_report (snd (espn_normalize_team_names g df)))
               (away_team (df ! i)) = 1"
      by (intro report_once e_mem) simp_all
  next
    assume u: "\<not> truthy (g (clean_name (home_team (df ! i))))"
    with assms show "home_team (fst (haslam_normalize_team_names g df) ! i)
                      = clean_name (home_team (df ! i))"
      by (simp add: haslam_normalize_team_names_def haslam_loop_rows)
    from u show "count_list (unmapped_report (snd (haslam_normalize_team_names g df)))
               (clean_name (home_team (df ! i))) = 1"
      by (intro report_once h_mem) simp_all
  next
    assume u: "\<not> truthy (g (clean_name (away_team (df ! i))))"
    with assms show "away_team (fst (haslam_normalize_team_names g df) ! i)
                      = clean_name (away_team (df ! i))"
      by (simp add: haslam_normalize_team_names_def haslam_loop_rows)
    from u show "count_list (unmapped_report (snd (haslam_normalize_team_names g df)))
               (clean_name (away_team (df ! i))) = 1"
      by (intro report_once h_mem) simp_all
  qed
qed

text \<open>
  The witness: \<open>Foo\<close> is unmapped and is the home team of two rows; \<open>Duke\<close> is mapped.
\<close>

theorem unmapped_name_kept_and_reported_once_witness:
  "(1::nat) < length
       [\<lparr>home_team = ''Foo'', away_team = ''Duke''\<rparr>, \<lparr>home_team = ''Foo'', away_team = ''Bar''\<rparr>]
   \<and> \<not> truthy ([''Duke'' \<mapsto> ''Duke Blue Devils''] ''Foo'')
   \<and> home_team (fst (espn_normalize_team_names [''Duke'' \<mapsto> ''Duke Blue Devils'']
       [\<lparr>home_team = ''Foo'', away_team = ''Duke''\<rparr>, \<lparr>home_team = ''Foo'', away_team = ''Bar''\<rparr>])
       ! 1) = ''Foo''
   \<and> count_list (unmapped_report (snd (espn_normalize_team_names [''Duke'' \<mapsto> ''Duke Blue Devils'']
       [\<lparr>home_team = ''Foo'', away_team = ''Duke''\<rparr>, \<lparr>home_team = ''Foo'', away_team = ''Bar''\<rparr>])))
       ''Foo'' = 1
   \<and> snd (espn_normalize_team_names [''Duke'' \<mapsto> ''Duke Blue Devils'']
       [\<lparr>home_team = ''Foo'', away_team = ''Duke''\<rparr>, \<lparr>home_team = ''Foo'', away_team = ''Bar''\<rparr>])
       = [''Foo'', ''Bar'']"
proof -
  let ?g = "[''Duke'' \<mapsto> ''Duke Blue Devils'']"
  let ?df = "[\<lparr>home_team = ''Foo'', away_team = ''Duke''\<rparr>, \<lparr>home_team = ''Foo'', away_team = ''Bar''\<rparr>]"
  have i: "(1::nat) < length ?df" by simp
  have u: "\<not> truthy (?g ''Foo'')" by (simp add: truthy_def)
  then have u': "\<not> truthy (?g (home_team (?df ! 1)))" by simp
  note th = unmapped_name_kept_and_reported_once[OF i, of ?g]
  from th u' have "home_team (fst (espn_normalize_team_names ?g ?df) ! 1) = home_team (?df ! 1)
     \<and> count_list (unmapped_report (snd (espn_normalize_team_names ?g ?df))) (home_team (?df ! 1)) = 1"
    by blast
  then have k: "home_team (fst (espn_normalize_team_names ?g ?df) ! 1) = ''Foo''"
    and c: "count_list (unmapped_report (snd (espn_normalize_team_names ?g ?df))) ''Foo'' = 1"
    by simp_all
  have l: "snd (espn_normalize_team_names ?g ?df) = [''Foo'', ''Bar'']"
    by (simp add: espn_normalize_team_names_def write_back_def truthy_def Let_def)
  from i u k c l show ?thesis by (intro conjI)
qed

subsection \<open>Ranking numbers in scraped names\<close>

text \<open>
  C9. In haslametric\_scrape.py a trailing ranking number, that is whitespace followed by
  digits at the end of the name, is removed (together with the whitespace around what
  remains), and \<open>get_canonical_name\<close> is applied to the name so cleaned: when it gives a
  canonical name for the cleaned name, that is the name written back, for the home and for
  the away side of every row.
\<close>

theorem ranking_token_stripped_before_lookup:
  assumes "ws \<noteq> []" and "\<forall>c\<in>set ws. is_space c"
    and "ds \<noteq> []" and "\<forall>c\<in>set ds. is_digit c"
    and "i < length df"
  shows "clean_name (base @ ws @ ds) = strip base
       \<and> (truthy (g (clean_name (home_team (df ! i)))) \<longrightarrow>
            home_team (fst (haslam_normalize_team_names g df) ! i)
              = the (g (clean_name (home_team (df ! i)))))
       \<and> (truthy (g (clean_name (away_team (df ! i)))) \<longrightarrow>
            away_team (fst (haslam_normalize_team_names g df) ! i)
              = the (g (clean_name (away_team (df ! i)))))"
proof (intro conjI impI)
  show "clean_name (base @ ws @ ds) = strip base"
    using assms(1-4) by (rule clean_name_ranking)
next
  assume "truthy (g (clean_name (home_team (df ! i))))"
  with assms(5) show "home_team (fst (haslam_normalize_team_names g df) ! i)
              = the (g (clean_name (home_team (df ! i))))"
    by (simp add: haslam_normalize_team_names_def haslam_loop_rows)
next
  assume "truthy (g (clean_name (away_team (df ! i))))"
  with assms(5) show "away_team (fst (haslam_normalize_team_names g df) ! i)
              = the (g (clean_name (away_team (df ! i))))"
    by (simp add: haslam_normalize_team_names_def haslam_loop_rows)
qed

theorem ranking_token_stripped_before_lookup_witness:
  "clean_name (''Duke'' @ '' '' @ ''12'') = ''Duke''
   \<and> truthy ([''Duke'' \<mapsto> ''Duke Blue Devils''] (clean_name ''Duke 12''))
   \<and> home_team (fst (haslam_normalize_team_names [''Duke'' \<mapsto> ''Duke Blue Devils'']
        [\<lparr>home_team = ''Duke 12'', away_team = ''Iowa'', home_score = 70, away_score = 65\<rparr>]) ! 0)
       = ''Duke Blue Devils''"
proof -
  let ?g = "[''Duke'' \<mapsto> ''Duke Blue Devils'']"
  let ?df = "[\<lparr>home_team = ''Duke 12'', away_team = ''Iowa'', home_score = 70::real, away_score = 65::real\<rparr>]"
  have ws: "'' '' \<noteq> []" "\<forall>c\<in>set '' ''. is_space c" by (simp_all add: is_space_def)
  have ds: "''12'' \<noteq> []" "\<forall>c\<in>set ''12''. is_digit c" by (simp_all add: is_digit_def)
  have i: "0 < length ?df" by simp
  note th = ranking_token_stripped_before_lookup[OF ws ds i, of "''Duke''" ?g]
  have s: "strip ''Duke'' = ''Duke''" by (simp add: strip_def is_space_def strip_while_def)
  from th s have c: "clean_name (''Duke'' @ '' '' @ ''12'') = ''Duke''" by simp
  then have c': "clean_name ''Duke 12'' = ''Duke''" by simp
  then have t: "truthy (?g (clean_name ''Duke 12''))" by (simp add: truthy_def)
  then have "truthy (?g (clean_name (home_team (?df ! 0))))" by simp
  with th have "home_team (fst (haslam_normalize_team_names ?g ?df) ! 0)
              = the (?g (clean_name (home_team (?df ! 0))))" by blast
  with c' have k: "home_team (fst (haslam_normalize_team_names ?g ?df) ! 0) = ''Duke Blue Devils''"
    by simp
  from c t k show ?thesis by (intro conjI)
qed

subsection \<open>Team lookup\<close>

text \<open>
  C10. \<open>get_team_data\<close> returns \<open>None\<close> exactly when no row of the table has the given
  name in its \<open>Team\<close> field; otherwise it returns the first row that has it. It is a total
  function with no error result: it never raises.
\<close>

theorem get_team_data_first_match:
  "(get_team_data df team = None \<longleftrightarrow> (\<forall>r\<in>set df. Team r \<noteq> team))
   \<and> (\<forall>r. get_team_data df team = Some r \<longrightarrow>
         (\<exists>pre post. df = pre @ r # post \<and> Team r = team \<and> (\<forall>x\<in>set pre. Team x \<noteq> team)))"
  using get_team_data_None[of df team] get_team_data_Some[of df team] by blast

theorem get_team_data_first_match_witness:
  "get_team_data
     [\<lparr>Team = ''Duke'', AdjO = 120, AdjD = 95, AdjT = 68, HCA = Some 3\<rparr>,
      \<lparr>Team = ''Iowa'', AdjO = 115, AdjD = 99, AdjT = 70, HCA = Some 4\<rparr>,
      \<lparr>Team = ''Iowa'', AdjO = 101, AdjD = 102, AdjT = 66, HCA = None\<rparr>] ''Yale'' = None
   \<and> get_team_data
     [\<lparr>Team = ''Duke'', AdjO = 120, AdjD = 95, AdjT = 68, HCA = Some 3\<rparr>,
      \<lparr>Team = ''Iowa'', AdjO = 115, AdjD = 99, AdjT = 70, HCA = Some 4\<rparr>,
      \<lparr>Team = ''Iowa'', AdjO = 101, AdjD = 102, AdjT = 66, HCA = None\<rparr>] ''Iowa''
     = Some \<lparr>Team = ''Iowa'', AdjO = 115, AdjD = 99, AdjT = 70, HCA = Some 4\<rparr>
   \<and> Team \<lparr>Team = ''Iowa'', AdjO = 115, AdjD = 99, AdjT = 70, HCA = Some (4::real)\<rparr> = ''Iowa''"
proof -
  let ?df = "[\<lparr>Team = ''Duke'', AdjO = 120, AdjD = 95, AdjT = 68, HCA = Some 3\<rparr>,
      \<lparr>Team = ''Iowa'', AdjO = 115, AdjD = 99, AdjT = 70, HCA = Some (4::real)\<rparr>,
      \<lparr>Team = ''Iowa'', AdjO = 101, AdjD = 102, AdjT = 66, HCA = None\<rparr>]"
  let ?r = "\<lparr>Team = ''Iowa'', AdjO = 115, AdjD = 99, AdjT = 70, HCA = Some (4::real)\<rparr>"
  have absent: "\<forall>r\<in>set ?df. Team r \<noteq> ''Yale''" by simp
  have none: "get_team_data ?df ''Yale'' = None"
    using get_team_data_first_match[of ?df "''Yale''"] absent by (rule_tac iffD2) (erule conjunct1)
  have some: "get_team_data ?df ''Iowa'' = Some ?r" by (simp add: get_team_data_def)
  from get_team_data_first_match[of ?df "''Iowa''", THEN conjunct2, rule_format, OF some]
  have "Team ?r = ''Iowa''" by (elim exE conjE)
  with none some show ?thesis by (intro conjI)
qed

end
